theory Spec2Isabelle
  imports Main "HOL-Library.Sublist"
begin

section \<open>Python values\<close>

text \<open>
  A Python \<open>str\<close> is represented by its UTF-8 encoding, as a \<open>string\<close> of 8-bit
  characters; \<open>bytes\<close> are a \<open>string\<close> too. String literals of the source are ASCII and
  stand for themselves, and concatenation, \<open>join\<close>, equality and emptiness agree with
  Python's on this representation.

  An exception is a value; each constructor carries what \<open>str(e)\<close> returns.
  \<open>ValueError\<close> is raised by the repository itself (executor.py line 70, config.py
  line 61); the others come from the libraries it calls.
\<close>

datatype exn =
    ValueError string
  | ValidationError string
  | OSError string
  | UnicodeDecodeError string
  | TimeoutError string

fun str_exn :: "exn \<Rightarrow> string" where
  "str_exn (ValueError m) = m"
| "str_exn (ValidationError m) = m"
| "str_exn (OSError m) = m"
| "str_exn (UnicodeDecodeError m) = m"
| "str_exn (TimeoutError m) = m"

text \<open>
  \<open>isinstance(e, asyncio.TimeoutError)\<close>, the test of the first \<open>except\<close> clause of the
  executor. \<open>TimeoutError\<close> stands for the exceptions of that class: the one \<open>wait_for\<close>
  raises when the time is up and, from Python 3.11 on, where \<open>asyncio.TimeoutError\<close> is
  the builtin \<open>TimeoutError\<close>, every \<open>OSError\<close> whose errno is \<open>ETIMEDOUT\<close>. \<open>OSError\<close>
  stands for the operating system errors that are not of that class.
\<close>

fun is_timeout :: "exn \<Rightarrow> bool" where
  "is_timeout (TimeoutError m) = True"
| "is_timeout e = False"

text \<open>\<open>sep.join(xs)\<close>\<close>

fun str_join :: "string \<Rightarrow> string list \<Rightarrow> string" where
  "str_join sep [] = []"
| "str_join sep [x] = x"
| "str_join sep (x # y # ys) = x @ sep @ str_join sep (y # ys)"

text \<open>\<open>str(n)\<close> for an \<open>int\<close>: decimal digits, with a minus sign below zero.\<close>

definition digit_char :: "nat \<Rightarrow> char" where
  "digit_char d = char_of (48 + d)"

fun str_nat :: "nat \<Rightarrow> string" where
  "str_nat n = (if n < 10 then [digit_char n] else str_nat (n div 10) @ [digit_char (n mod 10)])"

declare str_nat.simps [simp del]

definition str_int :: "int \<Rightarrow> string" where
  "str_int i = (if i < 0 then CHR ''-'' # str_nat (nat (- i)) else str_nat (nat i))"

definition str_bool :: "bool \<Rightarrow> string" where
  "str_bool b = (if b then ''True'' else ''False'')"

text \<open>
  \<open>bytes.decode('utf-8')\<close> with the default error handling (\<open>strict\<close>): the bytes are
  returned as text when they are well-formed UTF-8 (no overlong form, no surrogate,
  nothing above U+10FFFF), and \<open>UnicodeDecodeError\<close> is raised otherwise. The wording of
  that error is the codec's and is a parameter (\<open>decode_msg\<close> below).
\<close>

definition is_cont :: "nat \<Rightarrow> bool" where
  "is_cont b = (0x80 \<le> b \<and> b \<le> 0xBF)"

definition second_of_3 :: "nat \<Rightarrow> nat \<Rightarrow> bool" where
  "second_of_3 b c =
     (if b = 0xE0 then 0xA0 \<le> c \<and> c \<le> 0xBF
      else if b = 0xED then 0x80 \<le> c \<and> c \<le> 0x9F
      else is_cont c)"

definition second_of_4 :: "nat \<Rightarrow> nat \<Rightarrow> bool" where
  "second_of_4 b c =
     (if b = 0xF0 then 0x90 \<le> c \<and> c \<le> 0xBF
      else if b = 0xF4 then 0x80 \<le> c \<and> c \<le> 0x8F
      else is_cont c)"

fun utf8_valid :: "nat list \<Rightarrow> bool" where
  "utf8_valid [] = True"
| "utf8_valid (b # bs) =
     (if b < 0x80 then utf8_valid bs
      else if 0xC2 \<le> b \<and> b \<le> 0xDF then
        (case bs of
           c1 # r \<Rightarrow> is_cont c1 \<and> utf8_valid r
         | _ \<Rightarrow> False)
      else if 0xE0 \<le> b \<and> b \<le> 0xEF then
        (case bs of
           c1 # c2 # r \<Rightarrow> second_of_3 b c1 \<and> is_cont c2 \<and> utf8_valid r
         | _ \<Rightarrow> False)
      else if 0xF0 \<le> b \<and> b \<le> 0xF4 then
        (case bs of
           c1 # c2 # c3 # r \<Rightarrow> second_of_4 b c1 \<and> is_cont c2 \<and> is_cont c3 \<and> utf8_valid r
         | _ \<Rightarrow> False)
      else False)"

section \<open>config.py\<close>

record ScriptConfig =
  name :: string
  path :: string
  description :: string
  arguments :: "string list"
  working_directory :: "string option"
  timeout :: int

text \<open>
  \<open>MCPConfig.scripts\<close> is a dict: an association list in insertion order, whose keys are
  distinct (\<open>dict_ok\<close>). The field \<open>working_directory\<close> of \<open>MCPConfig\<close> is named
  \<open>default_working_directory\<close> here, since a record field name is global.
\<close>

record MCPConfig =
  default_working_directory :: string
  scripts :: "(string \<times> ScriptConfig) list"
  docker_image :: string
  container_name :: string
  mount_path :: string

definition dict_ok :: "MCPConfig \<Rightarrow> bool" where
  "dict_ok c = distinct (map fst (scripts c))"

text \<open>
  What the file at \<open>config_path\<close> holds: nothing, something that \<open>json.load\<close> or the
  field types of \<open>MCPConfig\<close> reject (with the text of that exception), or the data of
  a configuration with every field given, on which the two validators still have to run.
\<close>

datatype config_file = Missing | Unparsable string | Parsed MCPConfig

text \<open>
  The world outside the process. \<open>'t\<close> is the type of a \<open>float\<close> duration.
  One run of a child process is summarised by what the executor observes of it:
  \<^item> \<open>SpawnError e t\<close>: \<open>create_subprocess_exec\<close> raises \<open>e\<close> (the interpreter cannot be
    started, the working directory does not exist), and \<open>process\<close> stays \<open>None\<close>;
  \<^item> \<open>WaitError e rc t\<close>: the process is started, \<open>communicate\<close> raises \<open>e\<close>, and
    \<open>process.returncode\<close> is \<open>rc\<close> when a handler looks at it;
  \<^item> \<open>Exited rc out err t t'\<close>: \<open>communicate\<close> returns the bytes \<open>out\<close> and \<open>err\<close>
    within the timeout and \<open>process.returncode\<close> is \<open>rc\<close>;
  \<^item> \<open>TimedOut rc t\<close>: \<open>wait_for\<close> raises \<open>TimeoutError\<close>, and \<open>process.returncode\<close>
    is \<open>rc\<close> when the handler looks at it.
  \<open>t\<close> is \<open>time.time() - start_time\<close> as read on that path (\<open>t'\<close>: as read at
  line 140, when decoding fails after line 114 has read \<open>t\<close>). A script that \<open>bash\<close>
  cannot read or does not find is no \<open>SpawnError\<close>: \<open>bash\<close> is started and exits.
\<close>

datatype 't run =
    SpawnError exn 't
  | WaitError exn "int option" 't
  | Exited "int option" string string 't 't
  | TimedOut "int option" 't

record 't world =
  path_exists :: "string \<Rightarrow> bool"
  resolve :: "string \<Rightarrow> exn + string"
  run_process :: "string list \<Rightarrow> string \<Rightarrow> 't run"
  write_error :: "string option"
  fmt_2f :: "'t \<Rightarrow> string"
  decode_msg :: "string \<Rightarrow> string"
  validation_msg :: "string list \<Rightarrow> string"

text \<open>
  \<^item> \<open>path_exists\<close> is \<open>os.path.exists\<close>;
  \<^item> \<open>resolve\<close> is \<open>str(Path(p).resolve())\<close>, which raises for some arguments
    (an embedded NUL character, a symlink loop on older Pythons);
  \<^item> \<open>run_process argv cwd\<close> is what happens when \<open>argv\<close> is run in \<open>cwd\<close>;
  \<^item> \<open>write_error\<close> is the text of the \<open>OSError\<close> that opening \<open>config_path\<close> for
    writing raises, if it does;
  \<^item> \<open>fmt_2f\<close> is the format \<open>:.2f\<close>;
  \<^item> \<open>validation_msg\<close> is pydantic's rendering of the messages of the validators
    that failed.
\<close>

datatype event = Spawn "string list" string | Terminate | Kill | Wait

text \<open>
  The state of the server process: the configuration file, \<open>ConfigManager._config\<close>,
  the calls made on child processes so far (\<open>Spawn argv cwd\<close> is the call
  \<open>create_subprocess_exec(*argv, cwd=cwd)\<close>; \<open>Terminate\<close>, \<open>Kill\<close> and \<open>Wait\<close>
  are \<open>process.terminate()\<close>, \<open>process.kill()\<close> and \<open>process.wait()\<close> on the process
  spawned last), and the lines given to \<open>logger.error\<close>.
\<close>

record server_state =
  disk :: config_file
  cm_config :: "MCPConfig option"
  events :: "event list"
  error_log :: "string list"

definition validate_path :: "'t world \<Rightarrow> string \<Rightarrow> string list" where
  "validate_path w v =
     (if \<not> path_exists w v then [''Script path does not exist: '' @ v] else [])"

definition validate_working_directory :: "'t world \<Rightarrow> string \<Rightarrow> string list" where
  "validate_working_directory w v =
     (if \<not> path_exists w v then [''Working directory does not exist: '' @ v] else [])"

text \<open>
  \<open>MCPConfig(**config_data)\<close>: the validators run on \<open>working_directory\<close> and on the
  \<open>path\<close> of every script; when one fails the constructor raises pydantic's
  \<open>ValidationError\<close>.
\<close>

definition MCPConfig_init :: "'t world \<Rightarrow> MCPConfig \<Rightarrow> exn + MCPConfig" where
  "MCPConfig_init w d =
     (let errs = validate_working_directory w (default_working_directory d)
               @ concat (map (\<lambda>(k, sc). validate_path w (path sc)) (scripts d))
      in if errs = [] then Inr d else Inl (ValidationError (validation_msg w errs)))"

definition default_MCPConfig :: MCPConfig where
  "default_MCPConfig =
     \<lparr>default_working_directory = ''.'', scripts = [],
      docker_image = ''ubuntu:22.04'', container_name = ''mcp-script-runner'',
      mount_path = ''/workspace''\<rparr>"

definition default_config :: MCPConfig where
  "default_config =
     \<lparr>default_working_directory = ''.'',
      scripts = [(''hello'',
         \<lparr>name = ''hello'', path = ''./scripts/hello.sh'',
          description = ''Simple hello world script'', arguments = [],
          working_directory = None, timeout = 30\<rparr>)],
      docker_image = ''ubuntu:22.04'', container_name = ''mcp-script-runner'',
      mount_path = ''/workspace''\<rparr>"

definition save_default_config :: "'t world \<Rightarrow> server_state \<Rightarrow> (exn + unit) \<times> server_state" where
  "save_default_config w s =
     (case write_error w of
        Some m \<Rightarrow> (Inl (OSError m), s)
      | None \<Rightarrow> (Inr (), s\<lparr>disk := Parsed default_config\<rparr>))"

definition load_config :: "'t world \<Rightarrow> server_state \<Rightarrow> (exn + MCPConfig) \<times> server_state" where
  "load_config w s =
     (case disk s of
        Unparsable m \<Rightarrow> (Inl (ValueError (''Failed to load configuration: '' @ m)), s)
      | Parsed d \<Rightarrow>
          (case MCPConfig_init w d of
             Inl e \<Rightarrow> (Inl (ValueError (''Failed to load configuration: '' @ str_exn e)), s)
           | Inr c \<Rightarrow> (Inr c, s\<lparr>cm_config := Some c\<rparr>))
      | Missing \<Rightarrow>
          (case MCPConfig_init w default_MCPConfig of
             Inl e \<Rightarrow> (Inl e, s)
           | Inr c \<Rightarrow>
               (case save_default_config w (s\<lparr>cm_config := Some c\<rparr>) of
                  (Inl e, s') \<Rightarrow> (Inl e, s')
                | (Inr u, s') \<Rightarrow> (Inr c, s'))))"

definition reload_config :: "'t world \<Rightarrow> server_state \<Rightarrow> (exn + MCPConfig) \<times> server_state" where
  "reload_config w s = load_config w (s\<lparr>cm_config := None\<rparr>)"

definition config :: "'t world \<Rightarrow> server_state \<Rightarrow> (exn + MCPConfig) \<times> server_state" where
  "config w s =
     (case cm_config s of
        None \<Rightarrow> load_config w s
      | Some c \<Rightarrow> (Inr c, s))"

definition get_script_config ::
  "'t world \<Rightarrow> server_state \<Rightarrow> string \<Rightarrow> (exn + ScriptConfig option) \<times> server_state" where
  "get_script_config w s sname =
     (case config w s of
        (Inl e, s') \<Rightarrow> (Inl e, s')
      | (Inr c, s') \<Rightarrow> (Inr (map_of (scripts c) sname), s'))"

definition list_scripts :: "'t world \<Rightarrow> server_state \<Rightarrow> (exn + string list) \<times> server_state" where
  "list_scripts w s =
     (case config w s of
        (Inl e, s') \<Rightarrow> (Inl e, s')
      | (Inr c, s') \<Rightarrow> (Inr (map fst (scripts c)), s'))"

section \<open>executor.py\<close>

record 't ScriptExecutionResult =
  exit_code :: int
  stdout :: string
  stderr :: string
  execution_time :: 't
  script_name :: string

definition success :: "'t ScriptExecutionResult \<Rightarrow> bool" where
  "success r = (exit_code r = 0)"

definition decode_utf8 :: "'t world \<Rightarrow> string \<Rightarrow> exn + string" where
  "decode_utf8 w bs =
     (if utf8_valid (map of_char bs) then Inr bs
      else Inl (UnicodeDecodeError (decode_msg w bs)))"

text \<open>
  \<open>script_config.working_directory or self.config_manager.config.working_directory\<close>
  (line 95): \<open>None\<close> and the empty string are false, and only then is the
  configuration read, which loads it when it is not loaded.
\<close>

definition working_dir_of ::
  "'t world \<Rightarrow> server_state \<Rightarrow> ScriptConfig \<Rightarrow> (exn + string) \<times> server_state" where
  "working_dir_of w s sc =
     (case working_directory sc of
        Some d \<Rightarrow>
          (if d \<noteq> [] then (Inr d, s)
           else (case config w s of
                   (Inl e, s') \<Rightarrow> (Inl e, s')
                 | (Inr c, s') \<Rightarrow> (Inr (default_working_directory c), s')))
      | None \<Rightarrow>
          (case config w s of
             (Inl e, s') \<Rightarrow> (Inl e, s')
           | (Inr c, s') \<Rightarrow> (Inr (default_working_directory c), s')))"

text \<open>The result built at lines 116 to 122; either \<open>decode\<close> may raise.\<close>

definition completed_result ::
  "'t world \<Rightarrow> ScriptConfig \<Rightarrow> int option \<Rightarrow> string \<Rightarrow> string \<Rightarrow> 't
     \<Rightarrow> exn + 't ScriptExecutionResult" where
  "completed_result w sc rc stdout_data stderr_data t =
     (case decode_utf8 w stdout_data of
        Inl e \<Rightarrow> Inl e
      | Inr out \<Rightarrow>
          (case decode_utf8 w stderr_data of
             Inl e \<Rightarrow> Inl e
           | Inr err \<Rightarrow>
               Inr \<lparr>exit_code = (case rc of None \<Rightarrow> 0 | Some c \<Rightarrow> c),
                    stdout = out, stderr = err,
                    execution_time = t, script_name = name sc\<rparr>))"

text \<open>The result of the handler of \<open>asyncio.TimeoutError\<close> (lines 131 to 137).\<close>

definition timeout_result :: "ScriptConfig \<Rightarrow> 't \<Rightarrow> 't ScriptExecutionResult" where
  "timeout_result sc t =
     \<lparr>exit_code = 124, stdout = [],
      stderr = ''Script execution timed out after '' @ str_int (timeout sc) @ '' seconds'',
      execution_time = t, script_name = name sc\<rparr>"

text \<open>The result of the handler of \<open>Exception\<close> (lines 141 to 147).\<close>

definition error_result :: "ScriptConfig \<Rightarrow> exn \<Rightarrow> 't \<Rightarrow> 't ScriptExecutionResult" where
  "error_result sc e t =
     \<lparr>exit_code = 1, stdout = [],
      stderr = ''Error executing script: '' @ str_exn e,
      execution_time = t, script_name = name sc\<rparr>"

text \<open>
  The two \<open>except\<close> clauses, in the order of the source: an exception of the class
  \<open>asyncio.TimeoutError\<close> is taken by the first (lines 124 to 137), whatever raised it,
  and any other by the second (lines 139 to 147). \<open>process\<close> is \<open>None\<close> when the
  variable \<open>process\<close> is still \<open>None\<close>, and \<open>Some rc\<close> when it holds a process whose
  \<open>returncode\<close> is \<open>rc\<close>; the first clause kills and awaits a process without a return
  code.
\<close>

definition except_clauses ::
  "ScriptConfig \<Rightarrow> exn \<Rightarrow> int option option \<Rightarrow> 't \<Rightarrow> server_state
     \<Rightarrow> (exn + 't ScriptExecutionResult) \<times> server_state" where
  "except_clauses sc e process t s =
     (if is_timeout e then
        (Inr (timeout_result sc t),
         (case process of
            Some None \<Rightarrow> s\<lparr>events := events s @ [Kill, Wait]\<rparr>
          | _ \<Rightarrow> s))
      else (Inr (error_result sc e t), s))"

text \<open>
  \<open>ScriptExecutor._execute_script_config\<close>. Lines 92 to 96 run before the \<open>try\<close>:
  what they raise leaves the function. Inside the \<open>try\<close>, every exception ends in
  one of the two handlers.
\<close>

definition execute_script_config ::
  "'t world \<Rightarrow> server_state \<Rightarrow> ScriptConfig \<Rightarrow> string list
     \<Rightarrow> (exn + 't ScriptExecutionResult) \<times> server_state" where
  "execute_script_config w s sc args =
     (let cmd = [''bash'', path sc] @ args in
      case working_dir_of w s sc of
        (Inl e, s1) \<Rightarrow> (Inl e, s1)
      | (Inr working_dir, s1) \<Rightarrow>
          (case resolve w working_dir of
             Inl e \<Rightarrow> (Inl e, s1)
           | Inr working_dir_path \<Rightarrow>
               (let s2 = s1\<lparr>events := events s1 @ [Spawn cmd working_dir_path]\<rparr> in
                case run_process w cmd working_dir_path of
                  SpawnError e t \<Rightarrow> except_clauses sc e None t s2
                | WaitError e rc t \<Rightarrow> except_clauses sc e (Some rc) t s2
                | Exited rc stdout_data stderr_data t t' \<Rightarrow>
                    (case completed_result w sc rc stdout_data stderr_data t of
                       Inl e \<Rightarrow> except_clauses sc e (Some rc) t' s2
                     | Inr r \<Rightarrow> (Inr r, s2))
                | TimedOut rc t \<Rightarrow> except_clauses sc (TimeoutError []) (Some rc) t s2)))"

definition execute_script ::
  "'t world \<Rightarrow> server_state \<Rightarrow> string \<Rightarrow> string list option
     \<Rightarrow> (exn + 't ScriptExecutionResult) \<times> server_state" where
  "execute_script w s sname args =
     (case get_script_config w s sname of
        (Inl e, s') \<Rightarrow> (Inl e, s')
      | (Inr None, s') \<Rightarrow> (Inl (ValueError (''Script not found: '' @ sname)), s')
      | (Inr (Some script_config), s') \<Rightarrow>
          execute_script_config w s' script_config (case args of None \<Rightarrow> [] | Some a \<Rightarrow> a))"

text \<open>The dictionaries built by \<open>list_available_scripts\<close> and \<open>get_script_info\<close>.\<close>

record script_entry =
  entry_name :: string
  entry_description :: string
  entry_path :: string
  entry_arguments :: "string list"
  entry_timeout :: int

record script_info = script_entry +
  entry_working_directory :: "string option"

definition entry_of :: "ScriptConfig \<Rightarrow> script_entry" where
  "entry_of sc =
     \<lparr>entry_name = name sc, entry_description = description sc, entry_path = path sc,
      entry_arguments = arguments sc, entry_timeout = timeout sc\<rparr>"

text \<open>
  The loop of \<open>list_available_scripts\<close> over the names, with the list built so far.
  A \<open>ScriptConfig\<close> object is true, so the test at line 158 only drops a name
  whose lookup gave \<open>None\<close>.
\<close>

fun collect_scripts ::
  "'t world \<Rightarrow> server_state \<Rightarrow> string list \<Rightarrow> script_entry list
     \<Rightarrow> (exn + script_entry list) \<times> server_state" where
  "collect_scripts w s [] acc = (Inr acc, s)"
| "collect_scripts w s (n # ns) acc =
     (case get_script_config w s n of
        (Inl e, s') \<Rightarrow> (Inl e, s')
      | (Inr None, s') \<Rightarrow> collect_scripts w s' ns acc
      | (Inr (Some sc), s') \<Rightarrow> collect_scripts w s' ns (acc @ [entry_of sc]))"

definition list_available_scripts ::
  "'t world \<Rightarrow> server_state \<Rightarrow> (exn + script_entry list) \<times> server_state" where
  "list_available_scripts w s =
     (case list_scripts w s of
        (Inl e, s') \<Rightarrow> (Inl e, s')
      | (Inr names, s') \<Rightarrow> collect_scripts w s' names [])"

definition get_script_info ::
  "'t world \<Rightarrow> server_state \<Rightarrow> string \<Rightarrow> (exn + script_info option) \<times> server_state" where
  "get_script_info w s sname =
     (case get_script_config w s sname of
        (Inl e, s') \<Rightarrow> (Inl e, s')
      | (Inr None, s') \<Rightarrow> (Inr None, s')
      | (Inr (Some sc), s') \<Rightarrow>
          (Inr (Some \<lparr>entry_name = name sc, entry_description = description sc,
                      entry_path = path sc, entry_arguments = arguments sc,
                      entry_timeout = timeout sc,
                      entry_working_directory = working_directory sc\<rparr>), s'))"

section \<open>server.py\<close>

datatype TextContent = TextContent (content_type: string) (content_text: string)

text \<open>
  The \<open>arguments\<close> dictionary of a tool call, with the keys and types that the
  input schemas of \<open>list_tools\<close> declare; \<open>None\<close> is an absent key.
\<close>

record tool_arguments =
  arg_script_name :: "string option"
  arg_arguments :: "string list option"
  arg_path :: "string option"

definition newline :: string where
  "newline = [CHR 0x0A]"

text \<open>
  A handler answers by returning a list of \<open>TextContent\<close> (\<open>Inr\<close>); raising
  (\<open>Inl\<close>) is the only other way out of it, and the only one by which the framework
  could be made to report an error instead of the handler's content.
\<close>

definition handle_run_script ::
  "'t world \<Rightarrow> server_state \<Rightarrow> tool_arguments \<Rightarrow> (exn + TextContent list) \<times> server_state" where
  "handle_run_script w s a =
     (let script_arguments = (case arg_arguments a of None \<Rightarrow> [] | Some x \<Rightarrow> x);
          required = (Inr [TextContent ''text'' ''Error: script_name is required''], s)
      in case arg_script_name a of
           None \<Rightarrow> required
         | Some sname \<Rightarrow>
             if sname = [] then required
             else
               (case execute_script w s sname (Some script_arguments) of
                  (Inl e, s') \<Rightarrow>
                    (Inr [TextContent ''text'' (''Error executing script: '' @ str_exn e)], s')
                | (Inr result, s') \<Rightarrow>
                    (Inr [TextContent ''text'' (str_join newline
                       [''Script: '' @ script_name result,
                        ''Exit Code: '' @ str_int (exit_code result),
                        ''Execution Time: '' @ fmt_2f w (execution_time result) @ ''s'',
                        ''Success: '' @ str_bool (success result),
                        [],
                        ''STDOUT:'',
                        stdout result,
                        [],
                        ''STDERR:'',
                        stderr result])], s')))"

definition arguments_line :: "string list \<Rightarrow> string" where
  "arguments_line xs = ''Arguments: '' @ (if xs \<noteq> [] then str_join '', '' xs else ''None'')"

text \<open>The six lines that the loop of \<open>handle_list_scripts\<close> appends for one script.\<close>

definition script_lines :: "script_entry \<Rightarrow> string list" where
  "script_lines script =
     [''Name: '' @ entry_name script,
      ''Description: '' @ entry_description script,
      ''Path: '' @ entry_path script,
      arguments_line (entry_arguments script),
      ''Timeout: '' @ str_int (entry_timeout script) @ ''s'',
      []]"

definition list_output_lines :: "script_entry list \<Rightarrow> string list" where
  "list_output_lines found = [''Available Scripts:'', []] @ concat (map script_lines found)"

definition handle_list_scripts ::
  "'t world \<Rightarrow> server_state \<Rightarrow> tool_arguments \<Rightarrow> (exn + TextContent list) \<times> server_state" where
  "handle_list_scripts w s a =
     (case list_available_scripts w s of
        (Inl e, s') \<Rightarrow>
          (Inr [TextContent ''text'' (''Error listing scripts: '' @ str_exn e)], s')
      | (Inr found, s') \<Rightarrow>
          if found = [] then (Inr [TextContent ''text'' ''No scripts configured''], s')
          else (Inr [TextContent ''text'' (str_join newline (list_output_lines found))], s'))"

definition handle_get_script_info ::
  "'t world \<Rightarrow> server_state \<Rightarrow> tool_arguments \<Rightarrow> (exn + TextContent list) \<times> server_state" where
  "handle_get_script_info w s a =
     (let required = (Inr [TextContent ''text'' ''Error: script_name is required''], s)
      in case arg_script_name a of
           None \<Rightarrow> required
         | Some sname \<Rightarrow>
             if sname = [] then required
             else
               (case get_script_info w s sname of
                  (Inl e, s') \<Rightarrow>
                    (Inr [TextContent ''text'' (''Error getting script info: '' @ str_exn e)], s')
                | (Inr None, s') \<Rightarrow>
                    (Inr [TextContent ''text'' (''Script not found: '' @ sname)], s')
                | (Inr (Some info), s') \<Rightarrow>
                    (Inr [TextContent ''text'' (str_join newline
                       [''Script Information: '' @ sname,
                        [],
                        ''Name: '' @ entry_name info,
                        ''Description: '' @ entry_description info,
                        ''Path: '' @ entry_path info,
                        arguments_line (entry_arguments info),
                        ''Timeout: '' @ str_int (entry_timeout info) @ ''s'',
                        ''Working Directory: '' @
                          (case entry_working_directory info of
                             None \<Rightarrow> ''Default''
                           | Some d \<Rightarrow> if d \<noteq> [] then d else ''Default'')])], s')))"

definition handle_get_working_directory ::
  "'t world \<Rightarrow> server_state \<Rightarrow> tool_arguments \<Rightarrow> (exn + TextContent list) \<times> server_state" where
  "handle_get_working_directory w s a =
     (case config w s of
        (Inl e, s') \<Rightarrow>
          (Inr [TextContent ''text'' (''Error getting working directory: '' @ str_exn e)], s')
      | (Inr c, s') \<Rightarrow>
          (Inr [TextContent ''text''
                  (''Current working directory: '' @ default_working_directory c)], s'))"

text \<open>
  Line 237 assigns to the field of the object that \<open>config_manager.config\<close> returns,
  which is the object \<open>_config\<close> holds (loaded on the spot when it was not).
\<close>

definition handle_set_working_directory ::
  "'t world \<Rightarrow> server_state \<Rightarrow> tool_arguments \<Rightarrow> (exn + TextContent list) \<times> server_state" where
  "handle_set_working_directory w s a =
     (let required = (Inr [TextContent ''text'' ''Error: path is required''], s)
      in case arg_path a of
           None \<Rightarrow> required
         | Some p \<Rightarrow>
             if p = [] then required
             else if \<not> path_exists w p then
               (Inr [TextContent ''text'' (''Error: Directory does not exist: '' @ p)], s)
             else
               (case config w s of
                  (Inl e, s') \<Rightarrow>
                    (Inr [TextContent ''text''
                            (''Error setting working directory: '' @ str_exn e)], s')
                | (Inr c, s') \<Rightarrow>
                    (Inr [TextContent ''text'' (''Working directory set to: '' @ p)],
                     s'\<lparr>cm_config := Some (c\<lparr>default_working_directory := p\<rparr>)\<rparr>)))"

text \<open>
  The new \<open>ScriptExecutor\<close> of line 251 holds the same \<open>config_manager\<close> and nothing
  else, so it leaves the state as it is.
\<close>

definition handle_reload_config ::
  "'t world \<Rightarrow> server_state \<Rightarrow> tool_arguments \<Rightarrow> (exn + TextContent list) \<times> server_state" where
  "handle_reload_config w s a =
     (case reload_config w s of
        (Inl e, s') \<Rightarrow>
          (Inr [TextContent ''text'' (''Error reloading configuration: '' @ str_exn e)], s')
      | (Inr c, s') \<Rightarrow>
          (Inr [TextContent ''text'' ''Configuration reloaded successfully''], s'))"

text \<open>The names of the six tools of \<open>list_tools\<close>, which are the names \<open>call_tool\<close> compares with.\<close>

definition tool_names :: "string list" where
  "tool_names =
     [''run_script'', ''list_scripts'', ''get_script_info'', ''get_working_directory'',
      ''set_working_directory'', ''reload_config'']"

definition call_tool ::
  "'t world \<Rightarrow> server_state \<Rightarrow> string \<Rightarrow> tool_arguments
     \<Rightarrow> (exn + TextContent list) \<times> server_state" where
  "call_tool w s tool a =
     (case (if tool = ''run_script'' then handle_run_script w s a
            else if tool = ''list_scripts'' then handle_list_scripts w s a
            else if tool = ''get_script_info'' then handle_get_script_info w s a
            else if tool = ''get_working_directory'' then handle_get_working_directory w s a
            else if tool = ''set_working_directory'' then handle_set_working_directory w s a
            else if tool = ''reload_config'' then handle_reload_config w s a
            else (Inr [TextContent ''text'' (''Unknown tool: '' @ tool)], s)) of
        (Inl e, s') \<Rightarrow>
          (Inr [TextContent ''text'' (''Error: '' @ str_exn e)],
           s'\<lparr>error_log := error_log s' @ [''Error in tool '' @ tool @ '': '' @ str_exn e]\<rparr>)
      | (Inr content, s') \<Rightarrow> (Inr content, s'))"

section \<open>An example installation\<close>

text \<open>
  Five scripts and a world in which the first prints a line and exits with 0, the second
  outlives its timeout, the third prints two bytes that are not UTF-8 and exits with 0,
  the fourth is a file that \<open>bash\<close> may not read, so that \<open>bash\<close> exits with 126, and the
  fifth is configured with a working directory that is a single NUL character.
  Durations are counted in hundredths of a second.
\<close>

definition hello_script :: ScriptConfig where
  "hello_script =
     \<lparr>name = ''hello'', path = ''./scripts/hello.sh'',
      description = ''Simple hello world script'', arguments = [],
      working_directory = None, timeout = 30\<rparr>"

definition sleep_script :: ScriptConfig where
  "sleep_script =
     \<lparr>name = ''sleep'', path = ''./scripts/sleep.sh'',
      description = ''Sleeps for a minute'', arguments = [''seconds''],
      working_directory = Some ''/tmp'', timeout = 2\<rparr>"

definition binary_script :: ScriptConfig where
  "binary_script =
     \<lparr>name = ''binary'', path = ''./scripts/binary.sh'',
      description = ''Prints raw bytes'', arguments = [],
      working_directory = None, timeout = 30\<rparr>"

definition locked_script :: ScriptConfig where
  "locked_script =
     \<lparr>name = ''locked'', path = ''./scripts/locked.sh'',
      description = ''Not readable'', arguments = [''a'', ''b''],
      working_directory = None, timeout = 30\<rparr>"

definition nul_script :: ScriptConfig where
  "nul_script =
     \<lparr>name = ''nul'', path = ''./scripts/hello.sh'',
      description = ''Runs in a directory that cannot be'', arguments = [],
      working_directory = Some [CHR 0x00], timeout = 30\<rparr>"

definition example_config :: MCPConfig where
  "example_config =
     \<lparr>default_working_directory = ''.'',
      scripts = [(''hello'', hello_script), (''sleep'', sleep_script),
                 (''binary'', binary_script), (''locked'', locked_script),
                 (''nul'', nul_script)],
      docker_image = ''ubuntu:22.04'', container_name = ''mcp-script-runner'',
      mount_path = ''/workspace''\<rparr>"

text \<open>
  Two more scripts, of a second installation: the working directory of the first is
  gone, and that of the second is on a mount that does not answer, so that starting a
  process there fails with errno \<open>ENOENT\<close>, respectively \<open>ETIMEDOUT\<close>.
\<close>

definition away_script :: ScriptConfig where
  "away_script =
     \<lparr>name = ''away'', path = ''./scripts/hello.sh'',
      description = ''Runs in a directory that is gone'', arguments = [],
      working_directory = Some ''/nonexistent'', timeout = 30\<rparr>"

definition stale_script :: ScriptConfig where
  "stale_script =
     \<lparr>name = ''stale'', path = ''./scripts/hello.sh'',
      description = ''Runs on a mount that does not answer'', arguments = [],
      working_directory = Some ''/mnt/stale'', timeout = 30\<rparr>"

definition remote_config :: MCPConfig where
  "remote_config =
     \<lparr>default_working_directory = ''.'',
      scripts = [(''away'', away_script), (''stale'', stale_script)],
      docker_image = ''ubuntu:22.04'', container_name = ''mcp-script-runner'',
      mount_path = ''/workspace''\<rparr>"

definition enoent_text :: string where
  "enoent_text =
     ''[Errno 2] No such file or directory: '' @ [CHR 0x27] @ ''/nonexistent'' @ [CHR 0x27]"

definition example_run :: "string list \<Rightarrow> string \<Rightarrow> nat run" where
  "example_run argv cwd =
     (if cwd = ''/nonexistent'' then SpawnError (OSError enoent_text) 1
      else if cwd = ''/mnt/stale'' then
        SpawnError (TimeoutError ''[Errno 110] Connection timed out'') 1
      else
        (case argv of
           b # p # rest \<Rightarrow>
             if p = ''./scripts/hello.sh'' then Exited (Some 0) (''Hello'' @ [CHR 0x0A]) [] 3 3
             else if p = ''./scripts/sleep.sh'' then TimedOut None 200
             else if p = ''./scripts/binary.sh'' then
               Exited (Some 0) [CHR 0xFF, CHR 0xFE] [] 3 4
             else if p = ''./scripts/locked.sh'' then
               Exited (Some 126) []
                 (''bash: ./scripts/locked.sh: Permission denied'' @ [CHR 0x0A]) 3 3
             else
               Exited (Some 127) [] (''bash: '' @ p @ '': No such file or directory'' @ [CHR 0x0A]) 3 3
         | _ \<Rightarrow> Exited (Some 0) [] [] 3 3))"

definition example_world :: "nat world" where
  "example_world =
     \<lparr>path_exists = (\<lambda>p. p \<noteq> ''/nonexistent''),
      resolve = (\<lambda>p. if CHR 0x00 \<in> set p then Inl (ValueError ''embedded null byte'')
                     else if p = ''.'' then Inr ''/srv/app''
                     else Inr p),
      run_process = example_run,
      write_error = None,
      fmt_2f = (\<lambda>t. str_nat (t div 100) @ ''.'' @ str_nat (t mod 100 div 10) @ str_nat (t mod 10)),
      decode_msg = (\<lambda>bs. ''invalid start byte''),
      validation_msg = str_join ''; ''\<rparr>"

definition example_state :: server_state where
  "example_state =
     \<lparr>disk = Parsed example_config, cm_config = Some example_config,
      events = [], error_log = []\<rparr>"

definition remote_state :: server_state where
  "remote_state =
     \<lparr>disk = Parsed remote_config, cm_config = Some remote_config,
      events = [], error_log = []\<rparr>"

text \<open>A server whose configuration file is not JSON and was never loaded.\<close>

definition broken_state :: server_state where
  "broken_state =
     \<lparr>disk = Unparsable ''Expecting value: line 1 column 1 (char 0)'', cm_config = None,
      events = [], error_log = []\<rparr>"

text \<open>A server whose configuration holds no script.\<close>

definition empty_state :: server_state where
  "empty_state =
     \<lparr>disk = Parsed default_MCPConfig, cm_config = Some default_MCPConfig,
      events = [], error_log = []\<rparr>"

definition no_arguments :: tool_arguments where
  "no_arguments = \<lparr>arg_script_name = None, arg_arguments = None, arg_path = None\<rparr>"

lemmas example_defs =
  hello_script_def sleep_script_def binary_script_def locked_script_def nul_script_def
  away_script_def stale_script_def remote_config_def remote_state_def
  example_config_def example_run_def example_world_def example_state_def broken_state_def
  empty_state_def no_arguments_def

section \<open>The configuration manager\<close>

text \<open>Loading the configuration makes no call on a child process.\<close>

lemma load_config_events: "events (snd (load_config w s)) = events s"
  by (simp add: load_config_def save_default_config_def
      split: config_file.splits sum.splits option.splits)

lemma config_events: "events (snd (config w s)) = events s"
  by (simp add: config_def load_config_events split: option.splits)

lemma get_script_config_events: "events (snd (get_script_config w s n)) = events s"
  using config_events [of w s]
  by (cases "config w s") (auto simp: get_script_config_def split: sum.splits)

lemma working_dir_of_events: "events (snd (working_dir_of w s sc)) = events s"
  using config_events [of w s]
  by (auto simp: working_dir_of_def split: option.splits prod.splits sum.splits)

text \<open>A configuration that was returned is the one the manager now holds.\<close>

lemma load_config_holds:
  assumes "load_config w s = (Inr c, s')"
  shows "cm_config s' = Some c"
  using assms
  by (auto simp: load_config_def save_default_config_def
      split: config_file.splits sum.splits option.splits)

lemma config_holds:
  assumes "config w s = (Inr c, s')"
  shows "cm_config s' = Some c"
proof (cases "cm_config s")
  case None
  with assms have "load_config w s = (Inr c, s')" by (simp add: config_def)
  then show ?thesis by (rule load_config_holds)
next
  case (Some c0)
  with assms show ?thesis by (auto simp: config_def)
qed

lemma config_loaded: "cm_config s = Some c \<Longrightarrow> config w s = (Inr c, s)"
  by (simp add: config_def)

section \<open>What the executor does with a run\<close>

text \<open>
  Once the working directory is known and resolved, the call is decided by what the
  world says of the run.
\<close>

lemma execute_script_config_run:
  fixes w :: "'t world"
  assumes "working_dir_of w s sc = (Inr d, s1)" and "resolve w d = Inr cwd"
  shows "execute_script_config w s sc args =
     (let cmd = ''bash'' # path sc # args;
          s2 = s1\<lparr>events := events s1 @ [Spawn cmd cwd]\<rparr>
      in case run_process w cmd cwd of
           SpawnError e t \<Rightarrow> except_clauses sc e None t s2
         | WaitError e rc t \<Rightarrow> except_clauses sc e (Some rc) t s2
         | Exited rc stdout_data stderr_data t t' \<Rightarrow>
             (case completed_result w sc rc stdout_data stderr_data t of
                Inl e \<Rightarrow> except_clauses sc e (Some rc) t' s2
              | Inr r \<Rightarrow> (Inr r, s2))
         | TimedOut rc t \<Rightarrow> except_clauses sc (TimeoutError []) (Some rc) t s2)"
  using assms by (simp add: execute_script_config_def Let_def)


lemma example_working_dir:
  "working_directory sc = None \<Longrightarrow>
     working_dir_of example_world example_state sc = (Inr ''.'', example_state)"
  by (simp add: working_dir_of_def config_def example_state_def example_config_def)

lemma example_resolve: "resolve example_world ''.'' = Inr ''/srv/app''"
  by (simp add: example_world_def)

section \<open>The command line of the child process\<close>

text \<open>
  C1. Whatever the script and the caller's arguments: when the working directory of the
  run is obtained and resolves, \<open>_execute_script_config\<close> returns a result and has made
  exactly one call of the spawn primitive \<open>create_subprocess_exec\<close>, in the resolved
  directory, whose argument vector is the token \<open>bash\<close>, the path of the script, and the
  caller's arguments in their order, each one element of the vector: the vector has two
  more elements than the argument list and its element \<open>i + 2\<close> is argument \<open>i\<close>. The
  primitive starts the program with this vector as it is; nothing is joined into a
  command string and no shell reads the arguments on the way. What follows the spawn is
  at most the kill and the wait of the timeout handler. When the working directory is
  not obtained or does not resolve, the exception is raised and no call is made.
\<close>

theorem argv_is_interpreter_path_arguments:
  fixes w :: "'t world"
  shows
    "(\<forall>e s1. working_dir_of w s sc = (Inl e, s1) \<longrightarrow>
        execute_script_config w s sc args = (Inl e, s1) \<and> events s1 = events s) \<and>
     (\<forall>d s1 e. working_dir_of w s sc = (Inr d, s1) \<and> resolve w d = Inl e \<longrightarrow>
        execute_script_config w s sc args = (Inl e, s1) \<and> events s1 = events s) \<and>
     (\<forall>d s1 cwd. working_dir_of w s sc = (Inr d, s1) \<and> resolve w d = Inr cwd \<longrightarrow>
        (\<exists>r s' argv rest.
           execute_script_config w s sc args = (Inr r, s') \<and>
           events s' = events s @ Spawn argv cwd # rest \<and>
           argv = ''bash'' # path sc # args \<and>
           length argv = length args + 2 \<and>
           (\<forall>i < length args. argv ! (i + 2) = args ! i) \<and>
           set rest \<subseteq> {Kill, Wait}))"
proof -
  have no_dir: "\<forall>e s1. working_dir_of w s sc = (Inl e, s1) \<longrightarrow>
        execute_script_config w s sc args = (Inl e, s1) \<and> events s1 = events s"
  proof (intro allI impI)
    fix e s1
    assume a: "working_dir_of w s sc = (Inl e, s1)"
    then have "events s1 = events s"
      using working_dir_of_events [of w s sc] by simp
    with a show "execute_script_config w s sc args = (Inl e, s1) \<and> events s1 = events s"
      by (simp add: execute_script_config_def)
  qed
  have no_path: "\<forall>d s1 e. working_dir_of w s sc = (Inr d, s1) \<and> resolve w d = Inl e \<longrightarrow>
        execute_script_config w s sc args = (Inl e, s1) \<and> events s1 = events s"
  proof (intro allI impI)
    fix d s1 e
    assume a: "working_dir_of w s sc = (Inr d, s1) \<and> resolve w d = Inl e"
    then have "events s1 = events s"
      using working_dir_of_events [of w s sc] by simp
    with a show "execute_script_config w s sc args = (Inl e, s1) \<and> events s1 = events s"
      by (simp add: execute_script_config_def)
  qed
  have spawned: "\<forall>d s1 cwd. working_dir_of w s sc = (Inr d, s1) \<and> resolve w d = Inr cwd \<longrightarrow>
        (\<exists>r s' argv rest.
           execute_script_config w s sc args = (Inr r, s') \<and>
           events s' = events s @ Spawn argv cwd # rest \<and>
           argv = ''bash'' # path sc # args \<and>
           length argv = length args + 2 \<and>
           (\<forall>i < length args. argv ! (i + 2) = args ! i) \<and>
           set rest \<subseteq> {Kill, Wait})"
  proof (intro allI impI)
    fix d s1 cwd
    assume a: "working_dir_of w s sc = (Inr d, s1) \<and> resolve w d = Inr cwd"
    then have wd: "working_dir_of w s sc = (Inr d, s1)" and rs: "resolve w d = Inr cwd"
      by simp_all
    have ev: "events s1 = events s"
      using working_dir_of_events [of w s sc] wd by simp
    show "\<exists>r s' argv rest.
           execute_script_config w s sc args = (Inr r, s') \<and>
           events s' = events s @ Spawn argv cwd # rest \<and>
           argv = ''bash'' # path sc # args \<and>
           length argv = length args + 2 \<and>
           (\<forall>i < length args. argv ! (i + 2) = args ! i) \<and>
           set rest \<subseteq> {Kill, Wait}"
      using ev
      by (cases "run_process w (''bash'' # path sc # args) cwd")
         (auto simp: execute_script_config_run [OF wd rs] Let_def except_clauses_def
               split: sum.splits option.splits)
  qed
  show ?thesis
    by (rule conjI [OF no_dir conjI [OF no_path spawned]])
qed

text \<open>
  The argument \<open>; rm -rf /\<close> is the third element of the vector of the one process that
  is started, and the run of that vector is what is reported.
\<close>

theorem argv_is_interpreter_path_arguments_witness:
  "working_dir_of example_world example_state hello_script = (Inr ''.'', example_state) \<and>
   resolve example_world ''.'' = Inr ''/srv/app'' \<and>
   events (snd (execute_script_config example_world example_state hello_script [''; rm -rf /'']))
     = [Spawn [''bash'', ''./scripts/hello.sh'', ''; rm -rf /''] ''/srv/app''] \<and>
   run_process example_world [''bash'', ''./scripts/hello.sh'', ''; rm -rf /''] ''/srv/app''
     = Exited (Some 0) (''Hello'' @ [CHR 0x0A]) [] 3 3 \<and>
   fst (execute_script_config example_world example_state hello_script [''; rm -rf /''])
     = Inr \<lparr>exit_code = 0, stdout = ''Hello'' @ [CHR 0x0A], stderr = [],
            execution_time = 3, script_name = ''hello''\<rparr>"
proof -
  have wd: "working_dir_of example_world example_state hello_script = (Inr ''.'', example_state)"
    by (simp add: example_working_dir hello_script_def)
  have run: "run_process example_world [''bash'', ''./scripts/hello.sh'', ''; rm -rf /''] ''/srv/app''
     = Exited (Some 0) (''Hello'' @ [CHR 0x0A]) [] 3 3"
    by (simp add: example_world_def example_run_def)
  from argv_is_interpreter_path_arguments
         [where w = example_world and s = example_state and sc = hello_script
            and args = "[''; rm -rf /'']"] wd example_resolve
  obtain r s' rest where
    ex: "execute_script_config example_world example_state hello_script [''; rm -rf /''] = (Inr r, s')"
    and ev: "events s' = events example_state
               @ Spawn (''bash'' # path hello_script # [''; rm -rf /'']) ''/srv/app'' # rest"
    by blast
  have whole: "execute_script_config example_world example_state hello_script [''; rm -rf /'']
     = (Inr \<lparr>exit_code = 0, stdout = ''Hello'' @ [CHR 0x0A], stderr = [],
              execution_time = 3, script_name = ''hello''\<rparr>,
        example_state\<lparr>events := [Spawn [''bash'', ''./scripts/hello.sh'', ''; rm -rf /''] ''/srv/app'']\<rparr>)"
    using run unfolding execute_script_config_run [OF wd example_resolve]
    by (simp add: Let_def completed_result_def decode_utf8_def hello_script_def
        example_state_def)
  with ex ev wd example_resolve run show ?thesis
    by (simp add: hello_script_def example_state_def)
qed

section \<open>What the executor returns\<close>




section \<open>Timeout\<close>




section \<open>Decoding the output\<close>

text \<open>
  C4, as the code has it. The bytes of stdout and stderr are decoded strictly. When both
  are well-formed UTF-8 the result carries them as its text, with the return code of the
  child (0 when there is none) as exit code. When either is not, nothing is replaced:
  the result has exit code 1, is not a success, has an empty stdout, and its stderr is
  \<open>Error executing script: \<close> followed by the text of the decoding error.
\<close>

theorem output_is_decoded_strictly:
  fixes w :: "'t world"
  assumes wd: "working_dir_of w s sc = (Inr d, s1)"
      and rs: "resolve w d = Inr cwd"
      and run: "run_process w (''bash'' # path sc # args) cwd = Exited rc out err t t'"
  shows "\<exists>r. fst (execute_script_config w s sc args) = Inr r \<and>
     (if utf8_valid (map of_char out) \<and> utf8_valid (map of_char err)
      then exit_code r = (case rc of None \<Rightarrow> 0 | Some c \<Rightarrow> c) \<and>
           stdout r = out \<and> stderr r = err
      else exit_code r = 1 \<and> \<not> success r \<and> stdout r = [] \<and>
           stderr r = ''Error executing script: '' @
             decode_msg w (if utf8_valid (map of_char out) then err else out))"
  using run
  by (simp add: execute_script_config_run [OF wd rs] Let_def except_clauses_def
      completed_result_def decode_utf8_def error_result_def success_def)

theorem output_is_decoded_strictly_witness:
  "working_dir_of example_world example_state hello_script = (Inr ''.'', example_state) \<and>
   resolve example_world ''.'' = Inr ''/srv/app'' \<and>
   run_process example_world (''bash'' # path hello_script # []) ''/srv/app''
     = Exited (Some 0) (''Hello'' @ [CHR 0x0A]) [] 3 3 \<and>
   (\<exists>r. fst (execute_script_config example_world example_state hello_script []) = Inr r \<and>
        exit_code r = 0 \<and> stdout r = ''Hello'' @ [CHR 0x0A] \<and> stderr r = [])"
proof -
  have wd: "working_dir_of example_world example_state hello_script = (Inr ''.'', example_state)"
    by (simp add: example_working_dir hello_script_def)
  have run: "run_process example_world (''bash'' # path hello_script # []) ''/srv/app''
               = Exited (Some 0) (''Hello'' @ [CHR 0x0A]) [] 3 3"
    by (simp add: example_world_def example_run_def hello_script_def)
  have ok: "utf8_valid (map of_char (''Hello'' @ [CHR 0x0A])) \<and> utf8_valid (map of_char [])"
    by simp
  from output_is_decoded_strictly [OF wd example_resolve run] ok
  have "\<exists>r. fst (execute_script_config example_world example_state hello_script []) = Inr r \<and>
        exit_code r = 0 \<and> stdout r = ''Hello'' @ [CHR 0x0A] \<and> stderr r = []"
    by auto
  with wd example_resolve run show ?thesis by simp
qed

text \<open>
  C4, as the specification has it, fails: a child that exits with 0 after printing the
  bytes FF FE is reported with exit code 1, without its output.
\<close>

theorem invalid_utf8_counterexample:
  "run_process example_world [''bash'', ''./scripts/binary.sh''] ''/srv/app''
     = Exited (Some 0) [CHR 0xFF, CHR 0xFE] [] 3 4 \<and>
   fst (execute_script_config example_world example_state binary_script [])
     = Inr \<lparr>exit_code = 1, stdout = [],
            stderr = ''Error executing script: invalid start byte'',
            execution_time = 4, script_name = ''binary''\<rparr>"
  by (simp add: execute_script_config_def except_clauses_def working_dir_of_def config_def
      completed_result_def decode_utf8_def error_result_def example_defs)

section \<open>Requests with a missing or empty parameter\<close>

lemma run_script_required:
  "arg_script_name a = None \<or> arg_script_name a = Some [] \<Longrightarrow>
     handle_run_script w s a = (Inr [TextContent ''text'' ''Error: script_name is required''], s)"
  by (auto simp: handle_run_script_def)

lemma get_script_info_required:
  "arg_script_name a = None \<or> arg_script_name a = Some [] \<Longrightarrow>
     handle_get_script_info w s a
       = (Inr [TextContent ''text'' ''Error: script_name is required''], s)"
  by (auto simp: handle_get_script_info_def)

lemma set_working_directory_required:
  "arg_path a = None \<or> arg_path a = Some [] \<Longrightarrow>
     handle_set_working_directory w s a
       = (Inr [TextContent ''text'' ''Error: path is required''], s)"
  by (auto simp: handle_set_working_directory_def)

text \<open>
  C5, as the code has it. A \<open>run_script\<close> or \<open>get_script_info\<close> request without
  \<open>script_name\<close>, and a \<open>set_working_directory\<close> request without \<open>path\<close>, is answered
  by the handler, and so by \<open>call_tool\<close>, with a normal response whose text is
  \<open>Error: script_name is required\<close>, respectively \<open>Error: path is required\<close>; nothing is
  raised and the state of the server is unchanged.
\<close>

theorem missing_parameter_is_reported_as_text:
  fixes w :: "'t world"
  shows "(arg_script_name a = None \<longrightarrow>
            handle_run_script w s a
              = (Inr [TextContent ''text'' ''Error: script_name is required''], s) \<and>
            call_tool w s ''run_script'' a
              = (Inr [TextContent ''text'' ''Error: script_name is required''], s) \<and>
            handle_get_script_info w s a
              = (Inr [TextContent ''text'' ''Error: script_name is required''], s) \<and>
            call_tool w s ''get_script_info'' a
              = (Inr [TextContent ''text'' ''Error: script_name is required''], s)) \<and>
         (arg_path a = None \<longrightarrow>
            handle_set_working_directory w s a
              = (Inr [TextContent ''text'' ''Error: path is required''], s) \<and>
            call_tool w s ''set_working_directory'' a
              = (Inr [TextContent ''text'' ''Error: path is required''], s))"
proof (intro conjI impI)
  assume n: "arg_script_name a = None"
  show "handle_run_script w s a
          = (Inr [TextContent ''text'' ''Error: script_name is required''], s)"
    using n by (simp add: run_script_required)
  then show "call_tool w s ''run_script'' a
          = (Inr [TextContent ''text'' ''Error: script_name is required''], s)"
    by (simp add: call_tool_def)
  show "handle_get_script_info w s a
          = (Inr [TextContent ''text'' ''Error: script_name is required''], s)"
    using n by (simp add: get_script_info_required)
  then show "call_tool w s ''get_script_info'' a
          = (Inr [TextContent ''text'' ''Error: script_name is required''], s)"
    by (simp add: call_tool_def)
next
  assume n: "arg_path a = None"
  show "handle_set_working_directory w s a
          = (Inr [TextContent ''text'' ''Error: path is required''], s)"
    using n by (simp add: set_working_directory_required)
  then show "call_tool w s ''set_working_directory'' a
          = (Inr [TextContent ''text'' ''Error: path is required''], s)"
    by (simp add: call_tool_def)
qed

theorem missing_parameter_is_reported_as_text_witness:
  "arg_script_name no_arguments = None \<and> arg_path no_arguments = None \<and>
   handle_run_script example_world example_state no_arguments
     = (Inr [TextContent ''text'' ''Error: script_name is required''], example_state) \<and>
   handle_set_working_directory example_world example_state no_arguments
     = (Inr [TextContent ''text'' ''Error: path is required''], example_state)"
  using missing_parameter_is_reported_as_text
          [where w = example_world and s = example_state and a = no_arguments]
  by (simp add: no_arguments_def)

text \<open>
  C5, as the specification has it, fails: the request without \<open>script_name\<close> gets the
  handler's content, a normal response, and no exception reaches the framework.
\<close>

theorem missing_parameter_counterexample:
  "call_tool example_world example_state ''run_script'' no_arguments
     = (Inr [TextContent ''text'' ''Error: script_name is required''], example_state)
   \<and> \<not> isl (fst (handle_run_script example_world example_state no_arguments))"
  by (simp add: call_tool_def handle_run_script_def no_arguments_def)

text \<open>
  C10. The empty string is handled as an absent parameter: \<open>run_script\<close> and
  \<open>get_script_info\<close> with \<open>script_name\<close> equal to \<open>""\<close> give what they give without
  \<open>script_name\<close>, the text \<open>Error: script_name is required\<close>, and \<open>set_working_directory\<close>
  with \<open>path\<close> equal to \<open>""\<close> gives what it gives without \<open>path\<close>, the text
  \<open>Error: path is required\<close>. This holds in every world and every state, and the state
  that comes back is the state that went in: neither the registry, nor the file system,
  nor the stored working directory has a part in the answer or is changed by it.
\<close>

theorem empty_string_is_absent:
  fixes w :: "'t world"
  shows "handle_run_script w s (a\<lparr>arg_script_name := Some []\<rparr>)
           = handle_run_script w s (a\<lparr>arg_script_name := None\<rparr>) \<and>
         handle_run_script w s (a\<lparr>arg_script_name := Some []\<rparr>)
           = (Inr [TextContent ''text'' ''Error: script_name is required''], s) \<and>
         handle_get_script_info w s (a\<lparr>arg_script_name := Some []\<rparr>)
           = handle_get_script_info w s (a\<lparr>arg_script_name := None\<rparr>) \<and>
         handle_get_script_info w s (a\<lparr>arg_script_name := Some []\<rparr>)
           = (Inr [TextContent ''text'' ''Error: script_name is required''], s) \<and>
         handle_set_working_directory w s (a\<lparr>arg_path := Some []\<rparr>)
           = handle_set_working_directory w s (a\<lparr>arg_path := None\<rparr>) \<and>
         handle_set_working_directory w s (a\<lparr>arg_path := Some []\<rparr>)
           = (Inr [TextContent ''text'' ''Error: path is required''], s)"
  by (simp add: run_script_required get_script_info_required set_working_directory_required)

theorem empty_string_is_absent_witness:
  "call_tool example_world broken_state ''run_script'' (no_arguments\<lparr>arg_script_name := Some []\<rparr>)
     = (Inr [TextContent ''text'' ''Error: script_name is required''], broken_state) \<and>
   call_tool example_world broken_state ''set_working_directory'' (no_arguments\<lparr>arg_path := Some []\<rparr>)
     = (Inr [TextContent ''text'' ''Error: path is required''], broken_state)"
proof -
  note t = empty_string_is_absent [where w = example_world and s = broken_state and a = no_arguments]
  from t have r: "handle_run_script example_world broken_state (no_arguments\<lparr>arg_script_name := Some []\<rparr>)
     = (Inr [TextContent ''text'' ''Error: script_name is required''], broken_state)"
    by (elim conjE)
  from t have p: "handle_set_working_directory example_world broken_state (no_arguments\<lparr>arg_path := Some []\<rparr>)
     = (Inr [TextContent ''text'' ''Error: path is required''], broken_state)"
    by (elim conjE)
  show ?thesis
    by (simp add: call_tool_def r p)
qed

section \<open>Unknown tools\<close>

text \<open>
  C6, as the code has it. A call whose name is none of the six tools is answered with a
  normal response whose text is \<open>Unknown tool: \<close> followed by the name, and the state of
  the server, the error log included, is unchanged.
\<close>

theorem unknown_tool_is_reported_as_text:
  fixes w :: "'t world"
  assumes "tool \<notin> set tool_names"
  shows "call_tool w s tool a = (Inr [TextContent ''text'' (''Unknown tool: '' @ tool)], s)"
proof -
  from assms have
    "tool \<noteq> ''run_script''" "tool \<noteq> ''list_scripts''" "tool \<noteq> ''get_script_info''"
    "tool \<noteq> ''get_working_directory''" "tool \<noteq> ''set_working_directory''"
    "tool \<noteq> ''reload_config''"
    by (auto simp: tool_names_def)
  then show ?thesis
    unfolding call_tool_def by (simp only: if_False split: prod.split sum.split) simp
qed

theorem unknown_tool_is_reported_as_text_witness:
  "''delete_script'' \<notin> set tool_names \<and>
   call_tool example_world example_state ''delete_script'' no_arguments
     = (Inr [TextContent ''text'' ''Unknown tool: delete_script''], example_state)"
proof -
  have h: "''delete_script'' \<notin> set tool_names"
    by (simp add: tool_names_def)
  from unknown_tool_is_reported_as_text [OF h, of example_world example_state no_arguments] h
  show ?thesis by simp
qed

text \<open>
  C6, as the specification has it, fails: the unknown method \<open>shutdown\<close> gets a normal
  response, not an error.
\<close>

theorem unknown_tool_counterexample:
  "call_tool example_world example_state ''shutdown'' no_arguments
     = (Inr [TextContent ''text'' ''Unknown tool: shutdown''], example_state)"
  by (simp add: call_tool_def)

section \<open>Unknown scripts\<close>

text \<open>
  C7. A \<open>run_script\<close> request that names a script, with a name that the lookup in the
  registry does not find, is answered with a normal response whose text is
  \<open>Error executing script: Script not found: \<close> followed by the name; nothing is raised to
  the framework, and no call on a child process is made.
\<close>

theorem unknown_script_is_reported_not_run:
  fixes w :: "'t world"
  assumes nm: "arg_script_name a = Some sname" and ne: "sname \<noteq> []"
      and absent: "get_script_config w s sname = (Inr None, s1)"
  shows "handle_run_script w s a
           = (Inr [TextContent ''text'' (''Error executing script: Script not found: '' @ sname)], s1)
         \<and> call_tool w s ''run_script'' a
           = (Inr [TextContent ''text'' (''Error executing script: Script not found: '' @ sname)], s1)
         \<and> events s1 = events s"
proof -
  have raised: "execute_script w s sname args = (Inl (ValueError (''Script not found: '' @ sname)), s1)"
    for args
    using absent by (simp add: execute_script_def)
  have h: "handle_run_script w s a
           = (Inr [TextContent ''text'' (''Error executing script: Script not found: '' @ sname)], s1)"
    using nm ne by (simp add: handle_run_script_def raised)
  moreover from h have "call_tool w s ''run_script'' a
           = (Inr [TextContent ''text'' (''Error executing script: Script not found: '' @ sname)], s1)"
    by (simp add: call_tool_def)
  moreover have "events s1 = events s"
    using get_script_config_events [of w s sname] absent by simp
  ultimately show ?thesis by simp
qed

theorem unknown_script_is_reported_not_run_witness:
  "arg_script_name (no_arguments\<lparr>arg_script_name := Some ''deploy''\<rparr>) = Some ''deploy'' \<and>
   ''deploy'' \<noteq> [] \<and>
   get_script_config example_world example_state ''deploy'' = (Inr None, example_state) \<and>
   call_tool example_world example_state ''run_script'' (no_arguments\<lparr>arg_script_name := Some ''deploy''\<rparr>)
     = (Inr [TextContent ''text'' ''Error executing script: Script not found: deploy''], example_state)"
proof -
  have nm: "arg_script_name (no_arguments\<lparr>arg_script_name := Some ''deploy''\<rparr>) = Some ''deploy''"
    by simp
  have ne: "''deploy'' \<noteq> []" by simp
  have absent: "get_script_config example_world example_state ''deploy'' = (Inr None, example_state)"
    by (simp add: get_script_config_def config_def example_defs)
  from unknown_script_is_reported_not_run [OF nm ne absent] nm absent
  show ?thesis by simp
qed

section \<open>Listing the scripts\<close>

text \<open>In a dict, looking up the keys in their order gives the values in their order.\<close>

lemma map_of_keys:
  "distinct (map fst xs) \<Longrightarrow> map (map_of xs) (map fst xs) = map (Some \<circ> snd) xs"
proof (induction xs)
  case Nil
  show ?case by simp
next
  case (Cons x xs)
  have "map_of (x # xs) k = map_of xs k" if "k \<in> set (map fst xs)" for k
    using that Cons.prems by (cases x) auto
  then have "map (map_of (x # xs)) (map fst xs) = map (map_of xs) (map fst xs)"
    by (intro map_cong) auto
  with Cons show ?case by (cases x) simp
qed

text \<open>With the configuration loaded, the loop keeps the state and adds what it finds.\<close>

lemma collect_scripts_loaded:
  fixes w :: "'t world"
  assumes "cm_config s = Some c"
  shows "collect_scripts w s ns acc =
     (Inr (acc @ concat (map (\<lambda>n. case map_of (scripts c) n of
                                    None \<Rightarrow> [] | Some sc \<Rightarrow> [entry_of sc]) ns)), s)"
proof (induction ns arbitrary: acc)
  case Nil
  show ?case by simp
next
  case (Cons n ns)
  have look: "get_script_config w s n = (Inr (map_of (scripts c) n), s)"
    by (simp add: get_script_config_def config_loaded [OF assms])
  show ?case
    by (cases "map_of (scripts c) n") (simp_all add: look Cons.IH)
qed

lemma list_available_scripts_loaded:
  fixes w :: "'t world"
  assumes cfg: "config w s = (Inr c, s1)" and ok: "dict_ok c"
  shows "list_available_scripts w s = (Inr (map (entry_of \<circ> snd) (scripts c)), s1)"
proof -
  have held: "cm_config s1 = Some c"
    using cfg by (rule config_holds)
  have "concat (map (\<lambda>n. case map_of (scripts c) n of None \<Rightarrow> [] | Some sc \<Rightarrow> [entry_of sc])
                  (map fst (scripts c)))
        = concat (map (\<lambda>v. case v of None \<Rightarrow> [] | Some sc \<Rightarrow> [entry_of sc])
                  (map (map_of (scripts c)) (map fst (scripts c))))"
    by (simp add: comp_def)
  also have "\<dots> = concat (map (\<lambda>v. case v of None \<Rightarrow> [] | Some sc \<Rightarrow> [entry_of sc])
                  (map (Some \<circ> snd) (scripts c)))"
    using ok by (simp only: map_of_keys dict_ok_def)
  also have "\<dots> = map (entry_of \<circ> snd) (scripts c)"
    by (induction "scripts c") (simp_all add: comp_def)
  finally show ?thesis
    using cfg by (simp add: list_available_scripts_def list_scripts_def
        collect_scripts_loaded [OF held])
qed

lemma length_concat_blocks:
  "(\<And>x. x \<in> set xs \<Longrightarrow> length (f x) = k) \<Longrightarrow> length (concat (map f xs)) = k * length xs"
  by (induction xs) simp_all

text \<open>
  C8. When the registry is available, that is when the configuration is loaded or
  loads, \<open>list_scripts\<close> returns a normal response. If the registry holds no script,
  its text is \<open>No scripts configured\<close>. If it holds \<open>N\<close> scripts, the text is the lines
  \<open>Available Scripts:\<close> and an empty line, followed by \<open>N\<close> blocks joined by newlines,
  block \<open>i\<close> being the six lines of script \<open>i\<close> of the registry: its name, its
  description, its path, its arguments (joined by commas, or \<open>None\<close>), its timeout in
  seconds, and an empty line; that is \<open>2 + 6 * N\<close> lines.
\<close>

theorem list_scripts_gives_one_block_per_script:
  fixes w :: "'t world"
  assumes cfg: "config w s = (Inr c, s1)" and ok: "dict_ok c"
  shows "\<exists>blocks.
     length blocks = length (scripts c) \<and>
     (\<forall>i < length (scripts c).
        blocks ! i =
          (let sc = snd (scripts c ! i) in
           [''Name: '' @ name sc,
            ''Description: '' @ description sc,
            ''Path: '' @ path sc,
            ''Arguments: '' @ (if arguments sc = [] then ''None''
                               else str_join '', '' (arguments sc)),
            ''Timeout: '' @ str_int (timeout sc) @ ''s'',
            []])) \<and>
     length ([''Available Scripts:'', []] @ concat blocks) = 2 + 6 * length (scripts c) \<and>
     handle_list_scripts w s a =
       (Inr [TextContent ''text''
          (if scripts c = [] then ''No scripts configured''
           else str_join newline ([''Available Scripts:'', []] @ concat blocks))], s1)"
proof (intro exI conjI)
  let ?blocks = "map (script_lines \<circ> entry_of \<circ> snd) (scripts c)"
  show "length ?blocks = length (scripts c)" by simp
  show "\<forall>i < length (scripts c).
        ?blocks ! i =
          (let sc = snd (scripts c ! i) in
           [''Name: '' @ name sc,
            ''Description: '' @ description sc,
            ''Path: '' @ path sc,
            ''Arguments: '' @ (if arguments sc = [] then ''None''
                               else str_join '', '' (arguments sc)),
            ''Timeout: '' @ str_int (timeout sc) @ ''s'',
            []])"
    by (simp add: script_lines_def entry_of_def arguments_line_def Let_def)
  have "length (concat (map (script_lines \<circ> entry_of \<circ> snd) (scripts c)))
          = 6 * length (scripts c)"
    by (rule length_concat_blocks) (simp add: script_lines_def)
  then show "length ([''Available Scripts:'', []] @ concat ?blocks) = 2 + 6 * length (scripts c)"
    by simp
  show "handle_list_scripts w s a =
       (Inr [TextContent ''text''
          (if scripts c = [] then ''No scripts configured''
           else str_join newline ([''Available Scripts:'', []] @ concat ?blocks))], s1)"
    by (simp add: handle_list_scripts_def list_available_scripts_loaded [OF cfg ok]
        list_output_lines_def comp_def)
qed

text \<open>
  An empty registry, and the registry of the example with its five scripts, of which
  the first is \<open>hello\<close>.
\<close>

theorem list_scripts_gives_one_block_per_script_witness:
  "config example_world empty_state = (Inr default_MCPConfig, empty_state) \<and>
   dict_ok default_MCPConfig \<and>
   handle_list_scripts example_world empty_state no_arguments
     = (Inr [TextContent ''text'' ''No scripts configured''], empty_state) \<and>
   config example_world example_state = (Inr example_config, example_state) \<and>
   dict_ok example_config \<and>
   (\<exists>blocks. length blocks = 5 \<and>
      blocks ! 0 = [''Name: hello'', ''Description: Simple hello world script'',
                    ''Path: ./scripts/hello.sh'', ''Arguments: None'', ''Timeout: 30s'', []] \<and>
      handle_list_scripts example_world example_state no_arguments
        = (Inr [TextContent ''text''
                  (str_join newline ([''Available Scripts:'', []] @ concat blocks))],
           example_state))"
proof -
  have cfg0: "config example_world empty_state = (Inr default_MCPConfig, empty_state)"
    by (simp add: config_def empty_state_def)
  have ok0: "dict_ok default_MCPConfig"
    by (simp add: dict_ok_def default_MCPConfig_def)
  have none: "scripts default_MCPConfig = []"
    by (simp add: default_MCPConfig_def)
  from list_scripts_gives_one_block_per_script [OF cfg0 ok0, of no_arguments]
  have empty: "handle_list_scripts example_world empty_state no_arguments
     = (Inr [TextContent ''text'' ''No scripts configured''], empty_state)"
    by (auto simp: none)
  have cfg: "config example_world example_state = (Inr example_config, example_state)"
    by (simp add: config_def example_state_def)
  have ok: "dict_ok example_config"
    by (simp add: dict_ok_def example_config_def)
  have five: "length (scripts example_config) = 5" "scripts example_config \<noteq> []"
    and first: "snd (scripts example_config ! 0) = hello_script"
    by (simp_all add: example_config_def)
  have thirty: "str_int 30 = ''30''"
    by code_simp
  from list_scripts_gives_one_block_per_script [OF cfg ok, of no_arguments]
  obtain blocks where
    len: "length blocks = length (scripts example_config)" and
    each: "\<forall>i < length (scripts example_config).
        blocks ! i =
          (let sc = snd (scripts example_config ! i) in
           [''Name: '' @ name sc, ''Description: '' @ description sc, ''Path: '' @ path sc,
            ''Arguments: '' @ (if arguments sc = [] then ''None''
                               else str_join '', '' (arguments sc)),
            ''Timeout: '' @ str_int (timeout sc) @ ''s'', []])" and
    resp: "handle_list_scripts example_world example_state no_arguments =
       (Inr [TextContent ''text''
          (if scripts example_config = [] then ''No scripts configured''
           else str_join newline ([''Available Scripts:'', []] @ concat blocks))], example_state)"
    by blast
  from each five(1) have
    "blocks ! 0 = [''Name: hello'', ''Description: Simple hello world script'',
                   ''Path: ./scripts/hello.sh'', ''Arguments: None'', ''Timeout: 30s'', []]"
    by (simp add: first hello_script_def thirty)
  with len resp five have
    "\<exists>blocks. length blocks = 5 \<and>
      blocks ! 0 = [''Name: hello'', ''Description: Simple hello world script'',
                    ''Path: ./scripts/hello.sh'', ''Arguments: None'', ''Timeout: 30s'', []] \<and>
      handle_list_scripts example_world example_state no_arguments
        = (Inr [TextContent ''text''
                  (str_join newline ([''Available Scripts:'', []] @ concat blocks))],
           example_state)"
    by (intro exI [of _ blocks]) simp
  with cfg0 ok0 empty cfg ok show ?thesis by simp
qed

section \<open>Reloading the configuration\<close>

lemma load_config_file:
  fixes w :: "'t world"
  assumes "load_config w s = (Inr c, s1)"
  shows "\<exists>d. disk s1 = Parsed d \<and> default_working_directory c = default_working_directory d \<and>
             (disk s = Missing \<or> disk s = Parsed c)"
proof (cases "disk s")
  case Missing
  with assms show ?thesis
    by (auto simp: load_config_def save_default_config_def MCPConfig_init_def Let_def
        default_MCPConfig_def default_config_def split: sum.splits option.splits if_splits)
next
  case (Unparsable m)
  with assms show ?thesis by (simp add: load_config_def)
next
  case (Parsed d)
  with assms show ?thesis
    by (auto simp: load_config_def MCPConfig_init_def Let_def split: sum.splits if_splits)
qed

text \<open>
  C9. A reload that succeeds leaves the manager with the configuration of the file: the
  file then holds a configuration (the one it held before, or the default one that was
  written because there was no file), and the default working directory in memory is
  the one of that file. \<open>get_working_directory\<close> then reports that directory, and a
  script without a working directory of its own (none, or an empty one) is run in it. What the manager held
  before the reload, an override by \<open>set_working_directory\<close> included, has no part in
  the outcome: the reload from a state with any other configuration in memory is the
  same.
\<close>

theorem reload_rereads_working_directory:
  fixes w :: "'t world"
  assumes ok: "reload_config w s = (Inr c, s1)"
  shows "\<exists>d. disk s1 = Parsed d \<and> (disk s = Missing \<or> disk s = Parsed d) \<and>
     default_working_directory c = default_working_directory d \<and>
     cm_config s1 = Some c \<and>
     handle_reload_config w s a
       = (Inr [TextContent ''text'' ''Configuration reloaded successfully''], s1) \<and>
     handle_get_working_directory w s1 a
       = (Inr [TextContent ''text''
                 (''Current working directory: '' @ default_working_directory d)], s1) \<and>
     (\<forall>sc. working_directory sc = None \<or> working_directory sc = Some [] \<longrightarrow>
        working_dir_of w s1 sc = (Inr (default_working_directory d), s1)) \<and>
     (\<forall>held. reload_config w (s\<lparr>cm_config := held\<rparr>) = (Inr c, s1))"
proof -
  from ok have ld: "load_config w (s\<lparr>cm_config := None\<rparr>) = (Inr c, s1)"
    by (simp add: reload_config_def)
  from load_config_file [OF ld] obtain d where
    d: "disk s1 = Parsed d" "default_working_directory c = default_working_directory d"
       "disk s = Missing \<or> disk s = Parsed c"
    by auto
  have same: "disk s = Parsed c \<Longrightarrow> d = c"
    using ld d(1) by (auto simp: load_config_def split: sum.splits)
  have held: "cm_config s1 = Some c"
    using ld by (rule load_config_holds)
  have cfg: "config w s1 = (Inr c, s1)"
    using held by (rule config_loaded)
  have "disk s = Missing \<or> disk s = Parsed d"
    using d(3) same by auto
  moreover have "handle_reload_config w s a
       = (Inr [TextContent ''text'' ''Configuration reloaded successfully''], s1)"
    using ok by (simp add: handle_reload_config_def)
  moreover have "handle_get_working_directory w s1 a
       = (Inr [TextContent ''text''
                 (''Current working directory: '' @ default_working_directory d)], s1)"
    by (simp add: handle_get_working_directory_def cfg d(2))
  moreover have "\<forall>sc. working_directory sc = None \<or> working_directory sc = Some [] \<longrightarrow>
        working_dir_of w s1 sc = (Inr (default_working_directory d), s1)"
    by (auto simp: working_dir_of_def cfg d(2))
  moreover have "\<forall>held. reload_config w (s\<lparr>cm_config := held\<rparr>) = (Inr c, s1)"
    using ld by (simp add: reload_config_def)
  ultimately show ?thesis
    using d(1,2) held by blast
qed

text \<open>
  The override \<open>/tmp\<close> is reported before the reload, and the directory of the file,
  \<open>.\<close>, after it.
\<close>

theorem reload_rereads_working_directory_witness:
  "reload_config example_world
      (snd (handle_set_working_directory example_world example_state
              (no_arguments\<lparr>arg_path := Some ''/tmp''\<rparr>)))
     = (Inr example_config, example_state) \<and>
   fst (handle_get_working_directory example_world
          (snd (handle_set_working_directory example_world example_state
                  (no_arguments\<lparr>arg_path := Some ''/tmp''\<rparr>))) no_arguments)
     = Inr [TextContent ''text'' ''Current working directory: /tmp''] \<and>
   handle_get_working_directory example_world example_state no_arguments
     = (Inr [TextContent ''text'' ''Current working directory: .''], example_state)"
proof -
  let ?over = "snd (handle_set_working_directory example_world example_state
                      (no_arguments\<lparr>arg_path := Some ''/tmp''\<rparr>))"
  have over: "?over = example_state\<lparr>cm_config := Some (example_config\<lparr>default_working_directory := ''/tmp''\<rparr>)\<rparr>"
    by (simp add: handle_set_working_directory_def config_def example_world_def example_state_def)
  have valid: "MCPConfig_init example_world example_config = Inr example_config"
    by (simp add: MCPConfig_init_def validate_working_directory_def validate_path_def
        example_defs)
  have ok: "reload_config example_world ?over = (Inr example_config, example_state)"
    unfolding over by (simp add: reload_config_def load_config_def valid example_state_def)
  have before: "fst (handle_get_working_directory example_world ?over no_arguments)
     = Inr [TextContent ''text'' ''Current working directory: /tmp'']"
    unfolding over by (simp add: handle_get_working_directory_def config_def example_state_def)
  have wd: "default_working_directory example_config = ''.''"
    by (simp add: example_config_def)
  from reload_rereads_working_directory [OF ok, of no_arguments]
  have "handle_get_working_directory example_world example_state no_arguments
     = (Inr [TextContent ''text'' ''Current working directory: .''], example_state)"
    by (auto simp: example_state_def wd)
  with ok before show ?thesis by simp
qed

end
